theory Spec2Isabelle
  imports Main
begin

section \<open>Python strings\<close>

text \<open>
  A Python \<open>str\<close> is a sequence of Unicode code points, and \<open>len\<close> and slicing count
  code points. It is modelled as a list of code-point numbers; \<open>lit\<close> turns an ASCII
  literal of the source into that representation.
\<close>

type_synonym pystr = "nat list"

definition lit :: "string \<Rightarrow> pystr" where
  "lit s = map of_char s"

text \<open>\<open>text.startswith(pre)\<close>\<close>

fun startswith :: "pystr \<Rightarrow> pystr \<Rightarrow> bool" where
  "startswith text [] = True"
| "startswith [] (p # ps) = False"
| "startswith (c # cs) (p # ps) = (c = p \<and> startswith cs ps)"

text \<open>\<open>text.endswith(suf)\<close>\<close>

definition endswith :: "pystr \<Rightarrow> pystr \<Rightarrow> bool" where
  "endswith text suf = startswith (rev text) (rev suf)"

text \<open>\<open>sub in text\<close>: a scan over every start position.\<close>

fun contains :: "pystr \<Rightarrow> pystr \<Rightarrow> bool" where
  "contains sub [] = (sub = [])"
| "contains sub (c # cs) = (startswith (c # cs) sub \<or> contains sub cs)"

text \<open>
  \<open>str.isspace\<close> on one code point (the code points CPython classifies as whitespace),
  and \<open>text.strip()\<close>.
\<close>

definition isspace :: "nat \<Rightarrow> bool" where
  "isspace c = ((9 \<le> c \<and> c \<le> 13) \<or> (28 \<le> c \<and> c \<le> 32) \<or> c = 133 \<or> c = 160 \<or>
     c = 5760 \<or> (8192 \<le> c \<and> c \<le> 8202) \<or> c = 8232 \<or> c = 8233 \<or> c = 8239 \<or>
     c = 8287 \<or> c = 12288)"

definition strip :: "pystr \<Rightarrow> pystr" where
  "strip text = rev (dropWhile isspace (rev (dropWhile isspace text)))"

text \<open>\<open>s.rsplit(".", 1)[0]\<close>: everything before the last dot, or all of \<open>s\<close> without one.\<close>

definition rsplit_dot :: "pystr \<Rightarrow> pystr" where
  "rsplit_dot s = (if 46 \<in> set s then rev (tl (dropWhile (\<lambda>c. c \<noteq> 46) (rev s))) else s)"

text \<open>\<open>os.path.join(a, b)\<close> on POSIX.\<close>

definition sep :: pystr where
  "sep = lit ''/''"

definition join :: "pystr \<Rightarrow> pystr \<Rightarrow> pystr" where
  "join a b =
     (if startswith b sep then b
      else if a = [] \<or> endswith a sep then a @ b
      else a @ sep @ b)"


section \<open>Module constants\<close>

definition MAX_FILE_SIZE :: nat where
  "MAX_FILE_SIZE = 50 * 1024 * 1024"

definition SUPPORTED_DOMAINS :: "pystr list" where
  "SUPPORTED_DOMAINS = [lit ''vimeo.com'', lit ''instagram.com'', lit ''tiktok.com'',
     lit ''dailymotion.com'', lit ''facebook.com'', lit ''xvideos.com'']"


section \<open>Exceptions\<close>

text \<open>
  The handlers of the source distinguish three classes: \<open>yt_dlp.utils.DownloadError\<close>
  (\<open>except yt_dlp.utils.DownloadError\<close>), \<open>Exception\<close> (\<open>except Exception\<close>), and what
  \<open>except Exception\<close> lets through: the exceptions deriving from \<open>BaseException\<close> only
  (\<open>KeyboardInterrupt\<close>, \<open>SystemExit\<close>, \<open>asyncio.CancelledError\<close>), here \<open>BaseExc\<close>.
  Every constructor carries what \<open>str(e)\<close> gives.
\<close>

datatype exn =
    DownloadError pystr
  | ValueError pystr
  | OSError pystr
  | OtherException pystr
  | BaseExc pystr

fun exn_str :: "exn \<Rightarrow> pystr" where
  "exn_str (DownloadError m) = m"
| "exn_str (ValueError m) = m"
| "exn_str (OSError m) = m"
| "exn_str (OtherException m) = m"
| "exn_str (BaseExc m) = m"

text \<open>\<open>isinstance(e, Exception)\<close>\<close>

fun is_Exception :: "exn \<Rightarrow> bool" where
  "is_Exception (BaseExc m) = False"
| "is_Exception e = True"

text \<open>\<open>isinstance(e, yt_dlp.utils.DownloadError)\<close>\<close>

fun is_DownloadError :: "exn \<Rightarrow> bool" where
  "is_DownloadError (DownloadError m) = True"
| "is_DownloadError e = False"

definition no_usable_name :: exn where
  "no_usable_name = OSError (lit ''[Errno 17] No usable temporary directory name found'')"


section \<open>The world the bot acts on\<close>

text \<open>
  The file system maps each existing path to its node. The trace lists the calls the bot
  makes to its collaborators, in order: chat replies, log records, the extraction engine,
  the transcoding process, opening the file to deliver, and the video upload.
\<close>

datatype node = File nat | Dir

type_synonym filesystem = "pystr \<Rightarrow> node option"

datatype event =
    ReplyText pystr
  | LogError pystr
  | ExtractInfo pystr pystr
  | SubprocessRun "pystr list"
  | OpenRb pystr
  | BotSendVideo int pystr pystr

record world =
  active_downloads :: "int set"
  fs :: filesystem
  trace :: "event list"

text \<open>
  What the collaborators answer during one run. \<open>reply_text_exn\<close>: the exception
  \<open>reply_text\<close> raises for a message, if any. \<open>mkdtemp\<close>: the name chosen for the temporary
  directory, or the fault of creating it. \<open>dir_size\<close>: the \<open>st_size\<close> the platform reports
  for a directory. \<open>extract_info\<close>: from the URL, the output template and the file system,
  the engine's effect on the file system and either its exception or the \<open>title\<close> entry of
  the info dictionary (\<open>None\<close> when the key is absent) with the name \<open>prepare_filename\<close>
  gives. \<open>subprocess_run\<close>: the effect of the command on the file system and the exception
  of \<open>subprocess.run(cmd, check=True)\<close>, if any. \<open>bot_send_video\<close>: the exception of the
  upload, if any.
\<close>

record env =
  reply_text_exn :: "pystr \<Rightarrow> exn option"
  mkdtemp :: "exn + pystr"
  dir_size :: nat
  extract_info :: "pystr \<Rightarrow> pystr \<Rightarrow> filesystem \<Rightarrow> filesystem \<times> (exn + pystr option \<times> pystr)"
  subprocess_run :: "pystr list \<Rightarrow> filesystem \<Rightarrow> filesystem \<times> exn option"
  bot_send_video :: "int \<Rightarrow> pystr \<Rightarrow> pystr \<Rightarrow> exn option"
  isprintable :: "nat \<Rightarrow> bool"

record update =
  effective_user_id :: int
  effective_chat_id :: int
  message_text :: pystr

text \<open>
  \<open>repr\<close> of a \<open>str\<close>. The quote is the apostrophe, unless the string has an apostrophe
  and no double quote. The quote and the backslash are escaped with a backslash; tab,
  newline and carriage return are written as a backslash and \<open>t\<close>, \<open>n\<close>, \<open>r\<close>; the other
  code points below 32, 127, and the code points above 127 that are not printable are
  written as a backslash and \<open>xhh\<close>, \<open>uhhhh\<close> or \<open>Uhhhhhhhh\<close> in lower-case hexadecimal.
\<close>

definition hexdigit :: "nat \<Rightarrow> nat" where
  "hexdigit n = (if n < 10 then 48 + n else 87 + n)"

fun hex_digits :: "nat \<Rightarrow> nat \<Rightarrow> pystr" where
  "hex_digits 0 n = []"
| "hex_digits (Suc k) n = hex_digits k (n div 16) @ [hexdigit (n mod 16)]"

definition repr_char :: "env \<Rightarrow> nat \<Rightarrow> nat \<Rightarrow> pystr" where
  "repr_char E quote ch =
     (if ch = quote \<or> ch = 92 then [92, ch]
      else if ch = 9 then [92, 116]
      else if ch = 10 then [92, 110]
      else if ch = 13 then [92, 114]
      else if ch < 32 \<or> ch = 127 then [92, 120] @ hex_digits 2 ch
      else if ch < 127 then [ch]
      else if \<not> isprintable E ch then
        (if ch \<le> 255 then [92, 120] @ hex_digits 2 ch
         else if ch \<le> 65535 then [92, 117] @ hex_digits 4 ch
         else [92, 85] @ hex_digits 8 ch)
      else [ch])"

definition repr :: "env \<Rightarrow> pystr \<Rightarrow> pystr" where
  "repr E s =
     (let quote = (if 39 \<in> set s \<and> 34 \<notin> set s then 34 else 39)
      in [quote] @ concat (map (repr_char E quote) s) @ [quote])"

text \<open>
  \<open>str(e)\<close> of the \<open>OSError\<close> for a missing path and for a directory opened as a file:
  errno, message and \<open>repr\<close> of the file name.
\<close>

definition no_such_file :: "env \<Rightarrow> pystr \<Rightarrow> exn" where
  "no_such_file E p = OSError (lit ''[Errno 2] No such file or directory: '' @ repr E p)"

definition is_a_directory :: "env \<Rightarrow> pystr \<Rightarrow> exn" where
  "is_a_directory E p = OSError (lit ''[Errno 21] Is a directory: '' @ repr E p)"

definition emit :: "event \<Rightarrow> world \<Rightarrow> world" where
  "emit ev w = w\<lparr>trace := trace w @ [ev]\<rparr>"

definition raised :: "exn option \<Rightarrow> exn + unit" where
  "raised r = (case r of None \<Rightarrow> Inr () | Some e \<Rightarrow> Inl e)"

text \<open>\<open>await update.message.reply_text(msg)\<close>\<close>

definition reply_text :: "env \<Rightarrow> pystr \<Rightarrow> world \<Rightarrow> (exn + unit) \<times> world" where
  "reply_text E msg w = (raised (reply_text_exn E msg), emit (ReplyText msg) w)"

text \<open>\<open>logger.error(msg)\<close>\<close>

definition logger_error :: "pystr \<Rightarrow> world \<Rightarrow> world" where
  "logger_error msg w = emit (LogError msg) w"

text \<open>\<open>os.path.exists\<close>, \<open>os.path.getsize\<close>, \<open>open(path, 'rb')\<close>\<close>

definition exists :: "world \<Rightarrow> pystr \<Rightarrow> bool" where
  "exists w p = (fs w p \<noteq> None)"

definition getsize :: "env \<Rightarrow> world \<Rightarrow> pystr \<Rightarrow> exn + nat" where
  "getsize E w p =
     (case fs w p of
        None \<Rightarrow> Inl (no_such_file E p)
      | Some (File n) \<Rightarrow> Inr n
      | Some Dir \<Rightarrow> Inr (dir_size E))"

definition open_rb :: "env \<Rightarrow> pystr \<Rightarrow> world \<Rightarrow> (exn + unit) \<times> world" where
  "open_rb E p w =
     (case fs w p of
        None \<Rightarrow> Inl (no_such_file E p)
      | Some (File n) \<Rightarrow> Inr ()
      | Some Dir \<Rightarrow> Inl (is_a_directory E p),
      emit (OpenRb p) w)"

text \<open>
  \<open>tempfile.TemporaryDirectory()\<close>: entering creates the directory under an unused name;
  leaving removes the directory and everything below it.
\<close>

definition TemporaryDirectory :: "env \<Rightarrow> world \<Rightarrow> (exn + pystr) \<times> world" where
  "TemporaryDirectory E w =
     (case mkdtemp E of
        Inl e \<Rightarrow> (Inl e, w)
      | Inr d \<Rightarrow>
          if exists w d then (Inl no_usable_name, w)
          else (Inr d, w\<lparr>fs := (fs w)(d \<mapsto> Dir)\<rparr>))"

definition inside :: "pystr \<Rightarrow> pystr \<Rightarrow> bool" where
  "inside d p = startswith p (join d [])"

definition cleanup :: "pystr \<Rightarrow> world \<Rightarrow> world" where
  "cleanup d w = w\<lparr>fs := (\<lambda>p. if p = d \<or> inside d p then None else fs w p)\<rparr>"


section \<open>VideoDownloaderBot\<close>

definition BUSY :: pystr where
  "BUSY = [9203] @ lit '' Please wait, still working on your previous download...''"

definition INVALID :: pystr where
  "INVALID = [9888, 65039] @ lit '' Please send a valid URL from supported sites.''"

definition DOWNLOADING :: pystr where
  "DOWNLOADING = [11015, 65039] @ lit '' Downloading your video, please wait...''"

definition error_reply :: "exn \<Rightarrow> pystr" where
  "error_reply e = [10060] @ lit '' Error: '' @ exn_str e"

definition TOO_LARGE :: exn where
  "TOO_LARGE = ValueError (lit ''Even after compression, the video is too large.'')"

definition FAILED_TO_DOWNLOAD :: exn where
  "FAILED_TO_DOWNLOAD = ValueError (lit ''Failed to download. URL might be invalid.'')"

subsection \<open>\<open>_is_valid_url\<close>\<close>

definition is_valid_url :: "pystr \<Rightarrow> bool" where
  "is_valid_url text =
     (list_ex (startswith text) [lit ''http://'', lit ''https://''] \<and>
      list_ex (\<lambda>domain. contains domain text) SUPPORTED_DOMAINS)"

subsection \<open>\<open>_download_video\<close>\<close>

definition download_video ::
  "env \<Rightarrow> pystr \<Rightarrow> pystr \<Rightarrow> world \<Rightarrow> (exn + pystr \<times> pystr) \<times> world" where
  "download_video E url temp_dir w =
     (let outtmpl = join temp_dir (lit ''%(title)s.%(ext)s'');
          (fs', r) = extract_info E url outtmpl (fs w);
          w' = emit (ExtractInfo url outtmpl) (w\<lparr>fs := fs'\<rparr>)
      in case r of
           Inl e \<Rightarrow> (Inl e, w')
         | Inr (title, prepared) \<Rightarrow>
             let file_path = (if \<not> exists w' prepared
                              then rsplit_dot prepared @ lit ''.mp4'' else prepared)
             in (Inr (case title of None \<Rightarrow> lit ''video'' | Some t \<Rightarrow> t, file_path), w'))"

subsection \<open>\<open>_compress_video\<close>\<close>

definition ffmpeg_cmd :: "pystr \<Rightarrow> pystr \<Rightarrow> pystr list" where
  "ffmpeg_cmd input_path output_path =
     [lit ''ffmpeg'', lit ''-i'', input_path,
      lit ''-vf'', lit ''scale=-2:720'',
      lit ''-c:v'', lit ''libx264'', lit ''-preset'', lit ''fast'',
      lit ''-crf'', lit ''28'',
      lit ''-c:a'', lit ''aac'', lit ''-b:a'', lit ''96k'',
      lit ''-movflags'', lit ''+faststart'',
      output_path]"

definition compress_video :: "env \<Rightarrow> pystr \<Rightarrow> pystr \<Rightarrow> world \<Rightarrow> (exn + unit) \<times> world" where
  "compress_video E input_path output_path w =
     (let cmd = ffmpeg_cmd input_path output_path;
          (fs', r) = subprocess_run E cmd (fs w)
      in (raised r, emit (SubprocessRun cmd) (w\<lparr>fs := fs'\<rparr>)))"

subsection \<open>\<open>_send_video\<close>\<close>

text \<open>The body of the \<open>try\<close>: open the file, then upload it with the caption cut.\<close>

definition send_video_try ::
  "env \<Rightarrow> int \<Rightarrow> pystr \<Rightarrow> pystr \<Rightarrow> world \<Rightarrow> (exn + unit) \<times> world" where
  "send_video_try E chat_id file_path caption w =
     (case open_rb E file_path w of
        (Inl e, w1) \<Rightarrow> (Inl e, w1)
      | (Inr u, w1) \<Rightarrow>
          (raised (bot_send_video E chat_id file_path (take 1024 caption)),
           emit (BotSendVideo chat_id file_path (take 1024 caption)) w1))"

text \<open>With \<open>except Exception as e: logger.error(f"Send failed: {e}")\<close>.\<close>

definition send_video ::
  "env \<Rightarrow> int \<Rightarrow> pystr \<Rightarrow> pystr \<Rightarrow> world \<Rightarrow> (exn + unit) \<times> world" where
  "send_video E chat_id file_path caption w =
     (case send_video_try E chat_id file_path caption w of
        (Inl e, w1) \<Rightarrow>
          if is_Exception e
          then (Inr (), logger_error (lit ''Send failed: '' @ exn_str e) w1)
          else (Inl e, w1)
      | (Inr u, w1) \<Rightarrow> (Inr u, w1))"

subsection \<open>\<open>_process_video\<close>\<close>

text \<open>The body of the \<open>try\<close>, inside the temporary directory.\<close>

definition process_video_try ::
  "env \<Rightarrow> pystr \<Rightarrow> int \<Rightarrow> pystr \<Rightarrow> world \<Rightarrow> (exn + unit) \<times> world" where
  "process_video_try E url chat_id temp_dir w =
     (case download_video E url temp_dir w of
        (Inl e, w1) \<Rightarrow> (Inl e, w1)
      | (Inr (title, file_path), w1) \<Rightarrow>
          (case getsize E w1 file_path of
             Inl e \<Rightarrow> (Inl e, w1)
           | Inr file_size \<Rightarrow>
               if file_size > MAX_FILE_SIZE then
                 (let compressed_path = join temp_dir (lit ''compressed.mp4'')
                  in case compress_video E file_path compressed_path w1 of
                       (Inl e, w2) \<Rightarrow> (Inl e, w2)
                     | (Inr u, w2) \<Rightarrow>
                         (case getsize E w2 compressed_path of
                            Inl e \<Rightarrow> (Inl e, w2)
                          | Inr file_size' \<Rightarrow>
                              if file_size' > MAX_FILE_SIZE then (Inl TOO_LARGE, w2)
                              else send_video E chat_id compressed_path title w2))
               else send_video E chat_id file_path title w1))"

text \<open>
  With the handler \<open>except yt_dlp.utils.DownloadError: raise ValueError(...)\<close> and the
  \<open>with tempfile.TemporaryDirectory()\<close> around both.
\<close>

definition process_video :: "env \<Rightarrow> pystr \<Rightarrow> int \<Rightarrow> world \<Rightarrow> (exn + unit) \<times> world" where
  "process_video E url chat_id w =
     (case TemporaryDirectory E w of
        (Inl e, w0) \<Rightarrow> (Inl e, w0)
      | (Inr temp_dir, w0) \<Rightarrow>
          (case process_video_try E url chat_id temp_dir w0 of
             (Inl e, w1) \<Rightarrow>
               (if is_DownloadError e then Inl FAILED_TO_DOWNLOAD else Inl e, cleanup temp_dir w1)
           | (Inr u, w1) \<Rightarrow> (Inr u, cleanup temp_dir w1)))"

subsection \<open>\<open>handle_message\<close>\<close>

text \<open>\<open>self.active_downloads.add(user_id)\<close> and \<open>self.active_downloads.discard(user_id)\<close>\<close>

definition add :: "int \<Rightarrow> world \<Rightarrow> world" where
  "add user_id w = w\<lparr>active_downloads := insert user_id (active_downloads w)\<rparr>"

definition discard :: "int \<Rightarrow> world \<Rightarrow> world" where
  "discard user_id w = w\<lparr>active_downloads := active_downloads w - {user_id}\<rparr>"

text \<open>The body of the \<open>try\<close>.\<close>

definition handle_message_try ::
  "env \<Rightarrow> pystr \<Rightarrow> int \<Rightarrow> world \<Rightarrow> (exn + unit) \<times> world" where
  "handle_message_try E text chat_id w =
     (case reply_text E DOWNLOADING w of
        (Inl e, w1) \<Rightarrow> (Inl e, w1)
      | (Inr u, w1) \<Rightarrow> process_video E text chat_id w1)"

text \<open>
  The \<open>try\<close> with its \<open>except Exception as e\<close> (log, then reply with the error) and its
  \<open>finally\<close> (discard the user), entered after the user was added to the active set.
\<close>

definition run_lifecycle ::
  "env \<Rightarrow> int \<Rightarrow> int \<Rightarrow> pystr \<Rightarrow> world \<Rightarrow> (exn + unit) \<times> world" where
  "run_lifecycle E user_id chat_id text w =
     (let (r, w2) =
            (case handle_message_try E text chat_id w of
               (Inl e, w1) \<Rightarrow>
                 if is_Exception e
                 then reply_text E (error_reply e)
                        (logger_error (lit ''Download error: '' @ exn_str e) w1)
                 else (Inl e, w1)
             | (Inr u, w1) \<Rightarrow> (Inr u, w1))
      in (r, discard user_id w2))"

definition handle_message :: "env \<Rightarrow> update \<Rightarrow> world \<Rightarrow> (exn + unit) \<times> world" where
  "handle_message E upd w =
     (let user_id = effective_user_id upd;
          chat_id = effective_chat_id upd;
          text = strip (message_text upd)
      in if user_id \<in> active_downloads w then reply_text E BUSY w
         else if \<not> is_valid_url text then reply_text E INVALID w
         else run_lifecycle E user_id chat_id text (add user_id w))"


section \<open>Observations on the trace\<close>

text \<open>
  The calls of one kind in a trace: the transcoding process (every call of
  \<open>_compress_video\<close> makes exactly one), the video upload, and the chat replies.
\<close>

fun is_compress :: "event \<Rightarrow> bool" where
  "is_compress (SubprocessRun cmd) = True"
| "is_compress ev = False"

fun is_upload :: "event \<Rightarrow> bool" where
  "is_upload (BotSendVideo chat_id file_path caption) = True"
| "is_upload ev = False"

fun is_reply :: "event \<Rightarrow> bool" where
  "is_reply (ReplyText msg) = True"
| "is_reply ev = False"

text \<open>
  What a run leaves behind for the user and the process, log records aside: the active set,
  the file system and the replies.
\<close>

definition view :: "world \<Rightarrow> int set \<times> filesystem \<times> event list" where
  "view w = (active_downloads w, fs w, filter is_reply (trace w))"


section \<open>Scenarios\<close>

text \<open>
  Concrete runs. User 7 sends a Vimeo link from chat 70; the temporary directory is
  \<open>/tmp/tmpa1\<close>.
\<close>

definition world_init :: world where
  "world_init = \<lparr>active_downloads = {}, fs = (\<lambda>p. None), trace = []\<rparr>"

definition world_busy :: world where
  "world_busy = \<lparr>active_downloads = {7}, fs = (\<lambda>p. None), trace = []\<rparr>"

definition upd_vimeo :: update where
  "upd_vimeo = \<lparr>effective_user_id = 7, effective_chat_id = 70,
     message_text = lit ''https://vimeo.com/12345''\<rparr>"

definition upd_not_url :: update where
  "upd_not_url = \<lparr>effective_user_id = 7, effective_chat_id = 70,
     message_text = lit ''not a url''\<rparr>"

text \<open>
  The engine writes a 30 MiB file titled "Test Clip"; every call succeeds. Every path of
  the scenarios is ASCII, so the table of printable code points is not consulted; it
  agrees with the interpreter's table up to 255.
\<close>

definition env_small :: env where
  "env_small = \<lparr>
     reply_text_exn = (\<lambda>msg. None),
     mkdtemp = Inr (lit ''/tmp/tmpa1''),
     dir_size = 4096,
     extract_info = (\<lambda>url outtmpl f.
       (f(lit ''/tmp/tmpa1/Test Clip.mp4'' \<mapsto> File (30 * 1024 * 1024)),
        Inr (Some (lit ''Test Clip''), lit ''/tmp/tmpa1/Test Clip.mp4''))),
     subprocess_run = (\<lambda>cmd f. (f, None)),
     bot_send_video = (\<lambda>chat_id file_path caption. None),
     isprintable = (\<lambda>c. c > 160 \<and> c \<noteq> 173)\<rparr>"

text \<open>The engine writes a 60 MiB file, and the transcoder turns it into 55 MiB.\<close>

definition env_large :: env where
  "env_large = env_small\<lparr>
     extract_info := (\<lambda>url outtmpl f.
       (f(lit ''/tmp/tmpa1/Test Clip.mp4'' \<mapsto> File (60 * 1024 * 1024)),
        Inr (Some (lit ''Test Clip''), lit ''/tmp/tmpa1/Test Clip.mp4''))),
     subprocess_run := (\<lambda>cmd f. (f(last cmd \<mapsto> File (55 * 1024 * 1024)), None))\<rparr>"

text \<open>The engine leaves a partial file and raises a download fault.\<close>

definition env_fault :: env where
  "env_fault = env_small\<lparr>
     extract_info := (\<lambda>url outtmpl f.
       (f(lit ''/tmp/tmpa1/Test Clip.mp4.part'' \<mapsto> File 1000),
        Inl (DownloadError (lit ''Video unavailable''))))\<rparr>"

text \<open>The upload times out.\<close>

definition env_send_fails :: env where
  "env_send_fails = env_small\<lparr>
     bot_send_video := (\<lambda>chat_id file_path caption. Some (OtherException (lit ''Timed out'')))\<rparr>"

text \<open>The coroutine is cancelled during extraction.\<close>

definition env_cancelled :: env where
  "env_cancelled = env_small\<lparr>
     extract_info := (\<lambda>url outtmpl f. (f, Inl (BaseExc (lit ''CancelledError''))))\<rparr>"

text \<open>User 7 is being served and the 30 MiB file is in the temporary directory.\<close>

definition world_clip :: world where
  "world_clip = \<lparr>active_downloads = {7},
     fs = (\<lambda>p. None)(lit ''/tmp/tmpa1'' \<mapsto> Dir,
                        lit ''/tmp/tmpa1/Test Clip.mp4'' \<mapsto> File (30 * 1024 * 1024)),
     trace = []\<rparr>"


section \<open>Basic facts\<close>

lemma emit_simps [simp]:
  "active_downloads (emit ev w) = active_downloads w"
  "fs (emit ev w) = fs w"
  "trace (emit ev w) = trace w @ [ev]"
  by (simp_all add: emit_def)

lemma logger_error_simps [simp]:
  "active_downloads (logger_error m w) = active_downloads w"
  "fs (logger_error m w) = fs w"
  "trace (logger_error m w) = trace w @ [LogError m]"
  by (simp_all add: logger_error_def)

lemma add_simps [simp]:
  "active_downloads (add u w) = insert u (active_downloads w)"
  "fs (add u w) = fs w"
  "trace (add u w) = trace w"
  by (simp_all add: add_def)

lemma discard_simps [simp]:
  "active_downloads (discard u w) = active_downloads w - {u}"
  "fs (discard u w) = fs w"
  "trace (discard u w) = trace w"
  by (simp_all add: discard_def)

lemma cleanup_simps [simp]:
  "active_downloads (cleanup d w) = active_downloads w"
  "fs (cleanup d w) p = (if p = d \<or> inside d p then None else fs w p)"
  "trace (cleanup d w) = trace w"
  by (simp_all add: cleanup_def)

lemma reply_text_simps [simp]:
  "fst (reply_text E m w) = raised (reply_text_exn E m)"
  "snd (reply_text E m w) = emit (ReplyText m) w"
  by (simp_all add: reply_text_def)

lemma startswith_iff: "startswith s p \<longleftrightarrow> (\<exists>rest. s = p @ rest)"
  by (induction s p rule: startswith.induct) auto

lemma contains_iff: "contains sub s \<longleftrightarrow> (\<exists>pre post. s = pre @ sub @ post)"
proof (induction s)
  case Nil
  then show ?case by auto
next
  case (Cons c cs)
  show ?case
  proof
    assume "contains sub (c # cs)"
    then consider "startswith (c # cs) sub" | "contains sub cs" by auto
    then show "\<exists>pre post. c # cs = pre @ sub @ post"
    proof cases
      case 1
      then obtain rest where "c # cs = sub @ rest" by (auto simp: startswith_iff)
      then have "c # cs = [] @ sub @ rest" by simp
      then show ?thesis by blast
    next
      case 2
      then obtain pre post where "cs = pre @ sub @ post" using Cons.IH by auto
      then have "c # cs = (c # pre) @ sub @ post" by simp
      then show ?thesis by blast
    qed
  next
    assume "\<exists>pre post. c # cs = pre @ sub @ post"
    then obtain pre post where eq: "c # cs = pre @ sub @ post" by blast
    show "contains sub (c # cs)"
    proof (cases pre)
      case Nil
      with eq have "startswith (c # cs) sub" by (auto simp: startswith_iff)
      then show ?thesis by simp
    next
      case (Cons p pre')
      with eq have "cs = pre' @ sub @ post" by simp
      then have "contains sub cs" using Cons.IH by blast
      then show ?thesis by simp
    qed
  qed
qed

text \<open>
  Claim C4. \<open>_is_valid_url(text)\<close> is true exactly when \<open>text\<close> begins with \<open>http://\<close> or
  \<open>https://\<close> and one of the six listed domains occurs in it at some position, whatever
  comes before or after (so also inside a query string). It is a function of the text alone.
\<close>

theorem is_valid_url_iff:
  "is_valid_url s \<longleftrightarrow>
     ((\<exists>rest. s = lit ''http://'' @ rest) \<or> (\<exists>rest. s = lit ''https://'' @ rest)) \<and>
     (\<exists>domain \<in> set [lit ''vimeo.com'', lit ''instagram.com'', lit ''tiktok.com'',
        lit ''dailymotion.com'', lit ''facebook.com'', lit ''xvideos.com''].
        \<exists>pre post. s = pre @ domain @ post)"
  unfolding is_valid_url_def SUPPORTED_DOMAINS_def list_ex_iff
  by (simp only: startswith_iff contains_iff set_simps bex_simps) blast

theorem is_valid_url_iff_witness:
  "is_valid_url (lit ''https://example.org/watch?ref=tiktok.com'')"
proof -
  have "lit ''https://example.org/watch?ref=tiktok.com'' = lit ''https://'' @ lit ''example.org/watch?ref=tiktok.com''"
    by (simp add: lit_def)
  moreover have "lit ''https://example.org/watch?ref=tiktok.com'' = lit ''https://example.org/watch?ref='' @ lit ''tiktok.com'' @ []"
    by (simp add: lit_def)
  ultimately show ?thesis
    unfolding is_valid_url_iff by (metis list.set_intros)
qed

text \<open>
  Claim C9. Discarding a user who is not in the active set leaves the bot's state as it
  was, and discarding twice is discarding once.
\<close>

theorem release_idempotent:
  "(user_id \<notin> active_downloads w \<longrightarrow> discard user_id w = w) \<and>
   discard user_id (discard user_id w) = discard user_id w"
  by (simp add: discard_def)

theorem release_idempotent_witness:
  "effective_user_id upd_vimeo \<notin> active_downloads world_init \<and>
   discard (effective_user_id upd_vimeo) world_init = world_init"
  using release_idempotent [of "effective_user_id upd_vimeo" world_init]
  by (simp add: world_init_def)

text \<open>
  Claim C10. The membership test comes before the URL test: for a user already in the
  active set, whatever the text, the run consists of the busy reply alone. The reply about
  an invalid URL is a different message and is not sent, nothing is extracted, and the
  active set and the file system stay as they were.
\<close>

theorem busy_before_validation:
  assumes "effective_user_id upd \<in> active_downloads w"
  shows "handle_message E upd w = (raised (reply_text_exn E BUSY), emit (ReplyText BUSY) w) \<and>
         trace (snd (handle_message E upd w)) = trace w @ [ReplyText BUSY] \<and>
         active_downloads (snd (handle_message E upd w)) = active_downloads w \<and>
         fs (snd (handle_message E upd w)) = fs w \<and>
         BUSY \<noteq> INVALID"
  using assms by (simp add: handle_message_def reply_text_def BUSY_def INVALID_def)

theorem busy_before_validation_witness:
  "effective_user_id upd_not_url \<in> active_downloads world_busy \<and>
   \<not> is_valid_url (strip (message_text upd_not_url)) \<and>
   trace (snd (handle_message env_small upd_not_url world_busy)) = [ReplyText BUSY] \<and>
   active_downloads (snd (handle_message env_small upd_not_url world_busy)) = {7}"
proof -
  have busy: "effective_user_id upd_not_url \<in> active_downloads world_busy"
    by (simp add: upd_not_url_def world_busy_def)
  have "\<not> is_valid_url (strip (message_text upd_not_url))"
    by (simp add: upd_not_url_def is_valid_url_def strip_def isspace_def lit_def)
  with busy busy_before_validation [OF busy, of env_small] show ?thesis
    by (simp add: world_busy_def)
qed

lemma with_snd: "fst x = a \<Longrightarrow> x = (a, snd x)"
  by (cases x) simp

lemma vimeo_admitted:
  "effective_user_id upd_vimeo \<notin> active_downloads world_init"
  "is_valid_url (strip (message_text upd_vimeo))"
  "strip (message_text upd_vimeo) = lit ''https://vimeo.com/12345''"
  by (simp_all add: upd_vimeo_def world_init_def is_valid_url_def SUPPORTED_DOMAINS_def
      strip_def isspace_def lit_def)

lemma scenario_paths:
  "join (lit ''/tmp/tmpa1'') (lit ''%(title)s.%(ext)s'') = lit ''/tmp/tmpa1/%(title)s.%(ext)s''"
  "join (lit ''/tmp/tmpa1'') (lit ''compressed.mp4'') = lit ''/tmp/tmpa1/compressed.mp4''"
  by (simp_all add: join_def sep_def endswith_def lit_def)

lemmas run_defs = handle_message_def run_lifecycle_def handle_message_try_def process_video_def
  process_video_try_def send_video_def send_video_try_def compress_video_def download_video_def
  TemporaryDirectory_def open_rb_def getsize_def exists_def reply_text_def raised_def
  is_valid_url_def SUPPORTED_DOMAINS_def strip_def isspace_def join_def sep_def endswith_def
  inside_def MAX_FILE_SIZE_def rsplit_dot_def ffmpeg_cmd_def Let_def lit_def

lemma TemporaryDirectory_Inr:
  assumes "TemporaryDirectory E w = (Inr d, w0)"
  shows "w0 = w\<lparr>fs := (fs w)(d \<mapsto> Dir)\<rparr>" and "fs w d = None" and "mkdtemp E = Inr d"
  using assms by (auto simp: TemporaryDirectory_def exists_def split: sum.splits if_splits)

lemma download_video_world:
  assumes "download_video E url d w = (r, w1)"
  shows "trace w1 = trace w @ [ExtractInfo url (join d (lit ''%(title)s.%(ext)s''))]"
    and "active_downloads w1 = active_downloads w"
  using assms
  by (auto simp: download_video_def Let_def split: prod.splits sum.splits)

lemma compress_video_world:
  assumes "compress_video E i out w = (r, w2)"
  shows "trace w2 = trace w @ [SubprocessRun (ffmpeg_cmd i out)]"
    and "active_downloads w2 = active_downloads w"
  using assms
  by (auto simp: compress_video_def Let_def split: prod.splits)

lemma handle_message_admitted:
  assumes "effective_user_id upd \<notin> active_downloads w"
    and "is_valid_url (strip (message_text upd))"
  shows "handle_message E upd w =
           run_lifecycle E (effective_user_id upd) (effective_chat_id upd)
             (strip (message_text upd)) (add (effective_user_id upd) w)"
  using assms by (simp add: handle_message_def Let_def)

lemma handle_message_try_started:
  assumes "reply_text_exn E DOWNLOADING = None"
  shows "handle_message_try E url chat w = process_video E url chat (emit (ReplyText DOWNLOADING) w)"
  using assms by (simp add: handle_message_try_def reply_text_def raised_def)

lemma run_lifecycle_released:
  "user_id \<notin> active_downloads (snd (run_lifecycle E user_id chat url w))"
  by (simp add: run_lifecycle_def split: prod.splits sum.splits)

lemma run_lifecycle_fs:
  "fs (snd (run_lifecycle E user_id chat url w)) = fs (snd (handle_message_try E url chat w))"
  by (simp add: run_lifecycle_def reply_text_def split: prod.splits sum.splits)

lemma process_video_fs:
  assumes "TemporaryDirectory E w = (Inr d, w0)"
  shows "fs (snd (process_video E url chat w)) p = (if p = d \<or> inside d p then None
           else fs (snd (process_video_try E url chat d w0)) p)"
  using assms by (simp add: process_video_def split: prod.splits sum.splits)

lemma send_video_world:
  "active_downloads (snd (send_video E chat fp cap w)) = active_downloads w"
  "fs (snd (send_video E chat fp cap w)) = fs w"
  by (auto simp: send_video_def send_video_try_def open_rb_def split: prod.splits sum.splits)

lemma process_video_try_active:
  "active_downloads (snd (process_video_try E url chat d w)) = active_downloads w"
proof (cases "download_video E url d w")
  case dl: (Pair r1 w1)
  note a1 = download_video_world(2) [OF dl]
  show ?thesis
  proof (cases r1)
    case (Inl e)
    with dl a1 show ?thesis by (simp add: process_video_try_def)
  next
    case (Inr tf)
    obtain title fp where tf: "tf = (title, fp)" by (cases tf)
    show ?thesis
    proof (cases "getsize E w1 fp")
      case (Inl e)
      with dl Inr tf a1 show ?thesis by (simp add: process_video_try_def)
    next
      case gs: (Inr n)
      show ?thesis
      proof (cases "n > MAX_FILE_SIZE")
        case False
        with dl Inr tf gs a1 show ?thesis
          by (simp add: process_video_try_def send_video_world)
      next
        case True
        show ?thesis
        proof (cases "compress_video E fp (join d (lit ''compressed.mp4'')) w1")
          case cv: (Pair r2 w2)
          note a2 = compress_video_world(2) [OF cv]
          show ?thesis
          proof (cases r2)
            case (Inl e)
            with dl \<open>r1 = Inr tf\<close> tf gs True cv a1 a2 show ?thesis
              by (simp add: process_video_try_def)
          next
            case (Inr u)
            show ?thesis
            proof (cases "getsize E w2 (join d (lit ''compressed.mp4''))")
              case (Inl e)
              with dl \<open>r1 = Inr tf\<close> tf gs True cv \<open>r2 = Inr u\<close> a1 a2 show ?thesis
                by (simp add: process_video_try_def)
            next
              case (Inr n')
              with dl \<open>r1 = Inr tf\<close> tf gs True cv \<open>r2 = Inr u\<close> a1 a2 show ?thesis
                by (simp add: process_video_try_def send_video_world)
            qed
          qed
        qed
      qed
    qed
  qed
qed

lemma handle_message_try_active:
  "active_downloads (snd (handle_message_try E url chat w)) = active_downloads w"
proof -
  have inner: "active_downloads w1 = active_downloads w0"
    if "process_video_try E url chat d w0 = (r, w1)" for d w0 r w1
    using process_video_try_active [of E url chat d w0] that by simp
  have "active_downloads (snd (process_video E url chat w')) = active_downloads w'" for w'
  proof (cases "TemporaryDirectory E w'")
    case (Pair r0 w0)
    show ?thesis
    proof (cases r0)
      case (Inl e)
      with Pair show ?thesis
        by (auto simp: process_video_def TemporaryDirectory_def split: sum.splits if_splits)
    next
      case (Inr d)
      obtain r w1 where x: "process_video_try E url chat d w0 = (r, w1)"
        by (cases "process_video_try E url chat d w0")
      have "active_downloads w0 = active_downloads w'"
        using TemporaryDirectory_Inr(1) [of E w' d w0] Pair Inr by simp
      with inner [OF x] Pair Inr x show ?thesis
        by (cases r) (simp_all add: process_video_def)
    qed
  qed
  then show ?thesis
    by (auto simp: handle_message_try_def reply_text_def split: prod.splits sum.splits)
qed

text \<open>
  Claim C1. A message from a user who is in the active set has one effect, the busy reply:
  no extraction starts. A valid message from a user who is not in the set runs the
  \<open>try\<close>/\<open>except\<close>/\<open>finally\<close> block from the state in which the user has been added. The
  user is in the set in every state the run passes through before the \<open>finally\<close>: after
  the add, after the progress reply, with the temporary directory, after extraction, after
  compression, while and after the file is sent, at the end of the \<open>try\<close> body and when the
  error is logged; in each of them a further message from that user gets the busy reply
  alone. The block ends with the user out of the set from every state and for every answer
  of the collaborators, hence for success, for a fault and for an exception that
  \<open>except Exception\<close> lets through. So after any message of a user who was not in the set
  the user is not in it, and the user's next valid message is admitted.
\<close>

theorem admission_gate:
  "(effective_user_id upd \<in> active_downloads w \<longrightarrow>
      snd (handle_message E upd w) = emit (ReplyText BUSY) w) \<and>
   (effective_user_id upd \<notin> active_downloads w \<longrightarrow>
    is_valid_url (strip (message_text upd)) \<longrightarrow>
      handle_message E upd w =
        run_lifecycle E (effective_user_id upd) (effective_chat_id upd)
          (strip (message_text upd)) (add (effective_user_id upd) w) \<and>
      effective_user_id upd \<in> active_downloads (add (effective_user_id upd) w)) \<and>
   (TemporaryDirectory E (emit (ReplyText DOWNLOADING) (add (effective_user_id upd) w)) =
      (Inr d, w0) \<longrightarrow>
    download_video E (strip (message_text upd)) d w0 = (r1, w1) \<longrightarrow>
    compress_video E fp (join d (lit ''compressed.mp4'')) w1 = (r2, w2) \<longrightarrow>
    wm \<in> {add (effective_user_id upd) w,
           emit (ReplyText DOWNLOADING) (add (effective_user_id upd) w),
           w0, w1, w2,
           snd (open_rb E fp w1),
           snd (send_video E (effective_chat_id upd) fp title w1),
           snd (open_rb E (join d (lit ''compressed.mp4'')) w2),
           snd (send_video E (effective_chat_id upd) (join d (lit ''compressed.mp4'')) title w2),
           snd (handle_message_try E (strip (message_text upd)) (effective_chat_id upd)
                  (add (effective_user_id upd) w)),
           logger_error msg
             (snd (handle_message_try E (strip (message_text upd)) (effective_chat_id upd)
                     (add (effective_user_id upd) w)))} \<longrightarrow>
      effective_user_id upd \<in> active_downloads wm \<and>
      (effective_user_id upd' = effective_user_id upd \<longrightarrow>
         snd (handle_message E' upd' wm) = emit (ReplyText BUSY) wm)) \<and>
   active_downloads (snd (handle_message_try E url chat w)) = active_downloads w \<and>
   effective_user_id upd \<notin> active_downloads
      (snd (run_lifecycle E (effective_user_id upd) chat url w)) \<and>
   (effective_user_id upd \<notin> active_downloads w \<longrightarrow>
      effective_user_id upd \<notin> active_downloads (snd (handle_message E upd w))) \<and>
   (effective_user_id upd \<notin> active_downloads w \<longrightarrow>
    effective_user_id upd' = effective_user_id upd \<longrightarrow>
    is_valid_url (strip (message_text upd')) \<longrightarrow>
      handle_message E' upd' (snd (handle_message E upd w)) =
        run_lifecycle E' (effective_user_id upd') (effective_chat_id upd')
          (strip (message_text upd')) (add (effective_user_id upd') (snd (handle_message E upd w))))"
proof -
  let ?user = "effective_user_id upd"
  let ?chat = "effective_chat_id upd"
  let ?url = "strip (message_text upd)"
  let ?out = "join d (lit ''compressed.mp4'')"
  let ?S = "{add ?user w,
           emit (ReplyText DOWNLOADING) (add ?user w),
           w0, w1, w2,
           snd (open_rb E fp w1),
           snd (send_video E ?chat fp title w1),
           snd (open_rb E ?out w2),
           snd (send_video E ?chat ?out title w2),
           snd (handle_message_try E ?url ?chat (add ?user w)),
           logger_error msg (snd (handle_message_try E ?url ?chat (add ?user w)))}"
  have rejected: "snd (handle_message F u v) = emit (ReplyText BUSY) v"
    if "effective_user_id u \<in> active_downloads v" for F u v
    using that by (simp add: handle_message_def)
  have held: "?user \<in> active_downloads wm"
    if tmp: "TemporaryDirectory E (emit (ReplyText DOWNLOADING) (add ?user w)) = (Inr d, w0)"
      and dl: "download_video E ?url d w0 = (r1, w1)"
      and cv: "compress_video E fp ?out w1 = (r2, w2)"
      and wm: "wm \<in> ?S"
  proof -
    have a: "?user \<in> active_downloads (add ?user w)"
      by simp
    have a0: "?user \<in> active_downloads w0"
      using TemporaryDirectory_Inr(1) [OF tmp] by simp
    have a1: "?user \<in> active_downloads w1"
      using download_video_world(2) [OF dl] a0 by simp
    have a2: "?user \<in> active_downloads w2"
      using compress_video_world(2) [OF cv] a1 by simp
    have op: "active_downloads (snd (open_rb E p v)) = active_downloads v" for p v
      by (simp add: open_rb_def)
    have b: "?user \<in> active_downloads (emit (ReplyText DOWNLOADING) (add ?user w))"
      by simp
    have o1: "?user \<in> active_downloads (snd (open_rb E fp w1))"
      using a1 by (simp only: op)
    have o2: "?user \<in> active_downloads (snd (open_rb E ?out w2))"
      using a2 by (simp only: op)
    have s1: "?user \<in> active_downloads (snd (send_video E ?chat fp title w1))"
      using a1 by (simp only: send_video_world)
    have s2: "?user \<in> active_downloads (snd (send_video E ?chat ?out title w2))"
      using a2 by (simp only: send_video_world)
    have t: "?user \<in> active_downloads (snd (handle_message_try E ?url ?chat (add ?user w)))"
      using a by (simp only: handle_message_try_active)
    have l: "?user \<in> active_downloads
        (logger_error msg (snd (handle_message_try E ?url ?chat (add ?user w))))"
      using t by (simp only: logger_error_simps)
    from wm have "wm = add ?user w \<or>
        wm = emit (ReplyText DOWNLOADING) (add ?user w) \<or>
        wm = w0 \<or> wm = w1 \<or> wm = w2 \<or>
        wm = snd (open_rb E fp w1) \<or>
        wm = snd (send_video E ?chat fp title w1) \<or>
        wm = snd (open_rb E ?out w2) \<or>
        wm = snd (send_video E ?chat ?out title w2) \<or>
        wm = snd (handle_message_try E ?url ?chat (add ?user w)) \<or>
        wm = logger_error msg (snd (handle_message_try E ?url ?chat (add ?user w)))"
      by (simp only: insert_iff empty_iff simp_thms)
    then show ?thesis
      using a b a0 a1 a2 o1 s1 o2 s2 t l by (elim disjE) (simp_all only:)
  qed
  have c1: "?user \<in> active_downloads w \<longrightarrow>
      snd (handle_message E upd w) = emit (ReplyText BUSY) w"
    using rejected by blast
  have c2: "?user \<notin> active_downloads w \<longrightarrow> is_valid_url ?url \<longrightarrow>
      handle_message E upd w = run_lifecycle E ?user ?chat ?url (add ?user w) \<and>
      ?user \<in> active_downloads (add ?user w)"
    using handle_message_admitted [of upd w E] by simp
  have c3: "TemporaryDirectory E (emit (ReplyText DOWNLOADING) (add ?user w)) = (Inr d, w0) \<longrightarrow>
    download_video E ?url d w0 = (r1, w1) \<longrightarrow>
    compress_video E fp ?out w1 = (r2, w2) \<longrightarrow>
    wm \<in> ?S \<longrightarrow>
      ?user \<in> active_downloads wm \<and>
      (effective_user_id upd' = ?user \<longrightarrow>
         snd (handle_message E' upd' wm) = emit (ReplyText BUSY) wm)"
  proof (intro impI conjI)
    assume h: "TemporaryDirectory E (emit (ReplyText DOWNLOADING) (add ?user w)) = (Inr d, w0)"
      "download_video E ?url d w0 = (r1, w1)"
      "compress_video E fp ?out w1 = (r2, w2)"
      "wm \<in> ?S"
    show "?user \<in> active_downloads wm"
      using h by (rule held)
    assume "effective_user_id upd' = ?user"
    with held [OF h] have "effective_user_id upd' \<in> active_downloads wm"
      by (simp only:)
    then show "snd (handle_message E' upd' wm) = emit (ReplyText BUSY) wm"
      by (rule rejected)
  qed
  have c4: "active_downloads (snd (handle_message_try E url chat w)) = active_downloads w"
    by (rule handle_message_try_active)
  have c5: "?user \<notin> active_downloads (snd (run_lifecycle E ?user chat url w))"
    by (rule run_lifecycle_released)
  have c6: "?user \<notin> active_downloads w \<longrightarrow>
      ?user \<notin> active_downloads (snd (handle_message E upd w))"
    by (simp add: handle_message_def Let_def run_lifecycle_released)
  have c7: "?user \<notin> active_downloads w \<longrightarrow>
    effective_user_id upd' = ?user \<longrightarrow>
    is_valid_url (strip (message_text upd')) \<longrightarrow>
      handle_message E' upd' (snd (handle_message E upd w)) =
        run_lifecycle E' (effective_user_id upd') (effective_chat_id upd')
          (strip (message_text upd')) (add (effective_user_id upd') (snd (handle_message E upd w)))"
  proof (intro impI)
    assume "?user \<notin> active_downloads w" and same: "effective_user_id upd' = ?user"
      and valid: "is_valid_url (strip (message_text upd'))"
    with c6 have "effective_user_id upd' \<notin> active_downloads (snd (handle_message E upd w))"
      by simp
    then show "handle_message E' upd' (snd (handle_message E upd w)) =
        run_lifecycle E' (effective_user_id upd') (effective_chat_id upd')
          (strip (message_text upd')) (add (effective_user_id upd') (snd (handle_message E upd w)))"
      using valid by (rule handle_message_admitted)
  qed
  show ?thesis
    by (intro conjI) (rule c1, rule c2, rule c3, rule c4, rule c5, rule c6, rule c7)
qed

theorem admission_gate_witness:
  "effective_user_id upd_vimeo \<notin> active_downloads world_init \<and>
   is_valid_url (strip (message_text upd_vimeo)) \<and>
   effective_user_id upd_not_url = effective_user_id upd_vimeo \<and>
   handle_message env_small upd_vimeo world_init =
     run_lifecycle env_small (effective_user_id upd_vimeo) (effective_chat_id upd_vimeo)
       (strip (message_text upd_vimeo)) (add (effective_user_id upd_vimeo) world_init) \<and>
   effective_user_id upd_vimeo \<in>
     active_downloads
       (snd (download_video env_small (strip (message_text upd_vimeo)) (lit ''/tmp/tmpa1'')
          (snd (TemporaryDirectory env_small
             (emit (ReplyText DOWNLOADING) (add (effective_user_id upd_vimeo) world_init)))))) \<and>
   snd (handle_message env_small upd_not_url
       (snd (download_video env_small (strip (message_text upd_vimeo)) (lit ''/tmp/tmpa1'')
          (snd (TemporaryDirectory env_small
             (emit (ReplyText DOWNLOADING) (add (effective_user_id upd_vimeo) world_init))))))) =
     emit (ReplyText BUSY)
       (snd (download_video env_small (strip (message_text upd_vimeo)) (lit ''/tmp/tmpa1'')
          (snd (TemporaryDirectory env_small
             (emit (ReplyText DOWNLOADING) (add (effective_user_id upd_vimeo) world_init)))))) \<and>
   effective_user_id upd_vimeo \<notin> active_downloads (snd (handle_message env_small upd_vimeo world_init)) \<and>
   effective_user_id upd_vimeo \<notin> active_downloads (snd (handle_message env_fault upd_vimeo world_init)) \<and>
   effective_user_id upd_vimeo \<notin> active_downloads (snd (handle_message env_cancelled upd_vimeo world_init)) \<and>
   handle_message env_small upd_vimeo (snd (handle_message env_fault upd_vimeo world_init)) =
     run_lifecycle env_small (effective_user_id upd_vimeo) (effective_chat_id upd_vimeo)
       (strip (message_text upd_vimeo))
       (add (effective_user_id upd_vimeo) (snd (handle_message env_fault upd_vimeo world_init)))"
proof -
  let ?user = "effective_user_id upd_vimeo"
  let ?url = "strip (message_text upd_vimeo)"
  let ?d = "lit ''/tmp/tmpa1''"
  let ?fp = "lit ''/tmp/tmpa1/Test Clip.mp4''"
  let ?out = "join ?d (lit ''compressed.mp4'')"
  let ?W = "emit (ReplyText DOWNLOADING) (add ?user world_init)"
  let ?w0 = "snd (TemporaryDirectory env_small ?W)"
  let ?w1 = "snd (download_video env_small ?url ?d ?w0)"
  let ?r1 = "fst (download_video env_small ?url ?d ?w0)"
  let ?r2 = "fst (compress_video env_small ?fp ?out ?w1)"
  let ?w2 = "snd (compress_video env_small ?fp ?out ?w1)"
  have same: "effective_user_id upd_not_url = ?user"
    by (simp add: upd_not_url_def upd_vimeo_def)
  have "fst (TemporaryDirectory env_small ?W) = Inr ?d"
    by (simp add: TemporaryDirectory_def exists_def env_small_def world_init_def)
  then have tmp: "TemporaryDirectory env_small ?W = (Inr ?d, ?w0)"
    by (rule with_snd)
  have dl: "download_video env_small ?url ?d ?w0 = (?r1, ?w1)"
    by (simp only: prod.collapse)
  have cv: "compress_video env_small ?fp ?out ?w1 = (?r2, ?w2)"
    by (simp only: prod.collapse)
  note gate = admission_gate [where upd = upd_vimeo and w = world_init and E = env_small
      and d = ?d and ?w0.0 = ?w0 and ?r1.0 = ?r1 and ?w1.0 = ?w1 and fp = ?fp and ?r2.0 = ?r2
      and ?w2.0 = ?w2 and wm = ?w1 and title = "lit ''Test Clip''" and msg = "[]"
      and upd' = upd_not_url and E' = env_small]
  note fault = admission_gate [where upd = upd_vimeo and w = world_init and E = env_fault
      and upd' = upd_vimeo and E' = env_small]
  note cancelled = admission_gate [where upd = upd_vimeo and w = world_init and E = env_cancelled]
  have in_flight: "?w1 \<in> {add ?user world_init, ?W, ?w0, ?w1, ?w2,
      snd (open_rb env_small ?fp ?w1),
      snd (send_video env_small (effective_chat_id upd_vimeo) ?fp (lit ''Test Clip'') ?w1),
      snd (open_rb env_small ?out ?w2),
      snd (send_video env_small (effective_chat_id upd_vimeo) ?out (lit ''Test Clip'') ?w2),
      snd (handle_message_try env_small ?url (effective_chat_id upd_vimeo) (add ?user world_init)),
      logger_error []
        (snd (handle_message_try env_small ?url (effective_chat_id upd_vimeo)
           (add ?user world_init)))}"
    by (simp only: insert_iff simp_thms)
  note free = vimeo_admitted(1) and valid = vimeo_admitted(2)
  note admitted = gate [THEN conjunct2, THEN conjunct1, rule_format, OF free valid]
  note held = gate [THEN conjunct2, THEN conjunct2, THEN conjunct1, rule_format,
      OF tmp dl cv in_flight]
  note busy = held [THEN conjunct2, rule_format, OF same]
  note released = gate [THEN conjunct2, THEN conjunct2, THEN conjunct2, THEN conjunct2,
      THEN conjunct2, THEN conjunct1, rule_format, OF free]
  note released_fault = fault [THEN conjunct2, THEN conjunct2, THEN conjunct2, THEN conjunct2,
      THEN conjunct2, THEN conjunct1, rule_format, OF free]
  note released_cancelled = cancelled [THEN conjunct2, THEN conjunct2, THEN conjunct2,
      THEN conjunct2, THEN conjunct2, THEN conjunct1, rule_format, OF free]
  note again = fault [THEN conjunct2, THEN conjunct2, THEN conjunct2, THEN conjunct2,
      THEN conjunct2, THEN conjunct2, rule_format, OF free refl valid]
  show ?thesis
    using free valid same admitted [THEN conjunct1] held [THEN conjunct1] busy released
      released_fault released_cancelled again
    by (intro conjI)
qed

text \<open>
  Claim C2. Once the run has its temporary directory (it exists when extraction starts),
  then at the end of \<open>handle_message\<close>, whatever happened in between, neither the
  directory nor any path below it exists.
\<close>

theorem temp_dir_removed:
  assumes "effective_user_id upd \<notin> active_downloads w"
    and "is_valid_url (strip (message_text upd))"
    and "reply_text_exn E DOWNLOADING = None"
    and "TemporaryDirectory E (emit (ReplyText DOWNLOADING) (add (effective_user_id upd) w)) = (Inr d, w0)"
  shows "fs w0 d = Some Dir \<and>
         fs (snd (handle_message E upd w)) d = None \<and>
         (\<forall>p. inside d p \<longrightarrow> fs (snd (handle_message E upd w)) p = None)"
proof -
  have "fs w0 d = Some Dir"
    using TemporaryDirectory_Inr(1) [OF assms(4)] by simp
  moreover have "fs (snd (handle_message E upd w)) p = None" if "p = d \<or> inside d p" for p
    using that
    by (simp add: handle_message_admitted [OF assms(1,2)] run_lifecycle_fs
        handle_message_try_started [OF assms(3)] process_video_fs [OF assms(4)])
  ultimately show ?thesis by blast
qed

theorem temp_dir_removed_witness:
  "inside (lit ''/tmp/tmpa1'') (lit ''/tmp/tmpa1/Test Clip.mp4.part'') \<and>
   fs (snd (download_video env_fault (lit ''https://vimeo.com/12345'') (lit ''/tmp/tmpa1'')
         (snd (TemporaryDirectory env_fault world_init))))
      (lit ''/tmp/tmpa1/Test Clip.mp4.part'') = Some (File 1000) \<and>
   fs (snd (handle_message env_fault upd_vimeo world_init)) (lit ''/tmp/tmpa1'') = None \<and>
   fs (snd (handle_message env_fault upd_vimeo world_init)) (lit ''/tmp/tmpa1/Test Clip.mp4.part'') = None"
proof -
  let ?W = "emit (ReplyText DOWNLOADING) (add (effective_user_id upd_vimeo) world_init)"
  have reply: "reply_text_exn env_fault DOWNLOADING = None"
    by (simp add: env_fault_def env_small_def)
  have "fst (TemporaryDirectory env_fault ?W) = Inr (lit ''/tmp/tmpa1'')"
    by (simp add: TemporaryDirectory_def exists_def env_fault_def env_small_def world_init_def)
  then have tmp: "TemporaryDirectory env_fault ?W =
      (Inr (lit ''/tmp/tmpa1''), snd (TemporaryDirectory env_fault ?W))"
    by (rule with_snd)
  have ins: "inside (lit ''/tmp/tmpa1'') (lit ''/tmp/tmpa1/Test Clip.mp4.part'')"
    by (simp add: inside_def join_def sep_def endswith_def lit_def)
  have part: "fs (snd (download_video env_fault (lit ''https://vimeo.com/12345'') (lit ''/tmp/tmpa1'')
         (snd (TemporaryDirectory env_fault world_init))))
      (lit ''/tmp/tmpa1/Test Clip.mp4.part'') = Some (File 1000)"
    by (simp add: download_video_def TemporaryDirectory_def exists_def env_fault_def
        env_small_def world_init_def)
  from temp_dir_removed [OF vimeo_admitted(1,2) reply tmp] ins part show ?thesis
    by blast
qed

lemma is_DownloadError_Exception: "is_DownloadError e \<Longrightarrow> is_Exception e"
  by (cases e) auto

lemma handle_message_started:
  assumes "effective_user_id upd \<notin> active_downloads w"
    and "is_valid_url (strip (message_text upd))"
    and "reply_text_exn E DOWNLOADING = None"
    and "process_video E (strip (message_text upd)) (effective_chat_id upd)
           (emit (ReplyText DOWNLOADING) (add (effective_user_id upd) w)) = (r, w1)"
  shows "handle_message E upd w =
     (case r of
        Inl e \<Rightarrow>
          if is_Exception e
          then (raised (reply_text_exn E (error_reply e)),
                discard (effective_user_id upd) (emit (ReplyText (error_reply e))
                  (logger_error (lit ''Download error: '' @ exn_str e) w1)))
          else (Inl e, discard (effective_user_id upd) w1)
      | Inr u \<Rightarrow> (Inr u, discard (effective_user_id upd) w1))"
  using assms(4)
  by (simp add: handle_message_admitted [OF assms(1,2)] run_lifecycle_def
      handle_message_try_started [OF assms(3)] reply_text_def split: sum.splits)

lemma process_video_too_large:
  assumes "TemporaryDirectory E w = (Inr d, w0)"
    and "download_video E url d w0 = (Inr (title, fp), w1)"
    and "getsize E w1 fp = Inr n" and "n > MAX_FILE_SIZE"
    and "compress_video E fp (join d (lit ''compressed.mp4'')) w1 = (Inr (), w2)"
    and "getsize E w2 (join d (lit ''compressed.mp4'')) = Inr n'" and "n' > MAX_FILE_SIZE"
  shows "process_video E url chat w = (Inl TOO_LARGE, cleanup d w2)"
  using assms by (simp add: process_video_def process_video_try_def TOO_LARGE_def)

lemma process_video_download_fault:
  assumes "TemporaryDirectory E w = (Inr d, w0)"
    and "download_video E url d w0 = (Inl (DownloadError cause), w1)"
  shows "process_video E url chat w = (Inl FAILED_TO_DOWNLOAD, cleanup d w1)"
  using assms by (simp add: process_video_def process_video_try_def)

lemma send_video_result:
  "fst (send_video E chat fp cap w) = Inr () \<or>
   (\<exists>e. fst (send_video E chat fp cap w) = Inl e \<and> \<not> is_Exception e)"
  by (auto simp: send_video_def split: prod.splits sum.splits)

lemma send_video_no_compress:
  "filter is_compress (trace (snd (send_video E chat fp cap w))) = filter is_compress (trace w)"
  by (auto simp: send_video_def send_video_try_def open_rb_def split: prod.splits sum.splits)

lemma process_video_small:
  assumes "TemporaryDirectory E w = (Inr d, w0)"
    and "download_video E url d w0 = (Inr (title, fp), w1)"
    and "getsize E w1 fp = Inr n" and "n \<le> MAX_FILE_SIZE"
  shows "process_video_try E url chat d w0 = send_video E chat fp title w1"
    and "process_video E url chat w =
           (fst (send_video E chat fp title w1), cleanup d (snd (send_video E chat fp title w1)))"
proof -
  show eq: "process_video_try E url chat d w0 = send_video E chat fp title w1"
    using assms by (simp add: process_video_try_def)
  obtain r ws where sv: "send_video E chat fp title w1 = (r, ws)"
    by (cases "send_video E chat fp title w1")
  have "r = Inr () \<or> (\<exists>e. r = Inl e \<and> \<not> is_Exception e)"
    using send_video_result [of E chat fp title w1] sv by simp
  then show "process_video E url chat w =
           (fst (send_video E chat fp title w1), cleanup d (snd (send_video E chat fp title w1)))"
    using assms(1) eq sv is_DownloadError_Exception
    by (auto simp: process_video_def)
qed

text \<open>
  Claim C3. When the extracted file is larger than \<open>MAX_FILE_SIZE\<close> and the transcoder
  returns with a file that is still larger, \<open>_process_video\<close> raises the oversize
  \<open>ValueError\<close>, the user gets the error reply with its message, and the run's calls are the
  progress reply, the extraction, the transcoding, the log record and the error reply:
  the file is never opened for delivery and nothing is uploaded.
\<close>

theorem oversize_after_compression:
  assumes "effective_user_id upd \<notin> active_downloads w"
    and "is_valid_url (strip (message_text upd))"
    and "reply_text_exn E DOWNLOADING = None"
    and "TemporaryDirectory E (emit (ReplyText DOWNLOADING) (add (effective_user_id upd) w)) = (Inr d, w0)"
    and "download_video E (strip (message_text upd)) d w0 = (Inr (title, fp), w1)"
    and "getsize E w1 fp = Inr n" and "n > MAX_FILE_SIZE"
    and "compress_video E fp (join d (lit ''compressed.mp4'')) w1 = (Inr (), w2)"
    and "getsize E w2 (join d (lit ''compressed.mp4'')) = Inr n'" and "n' > MAX_FILE_SIZE"
  shows "process_video E (strip (message_text upd)) (effective_chat_id upd)
           (emit (ReplyText DOWNLOADING) (add (effective_user_id upd) w)) = (Inl TOO_LARGE, cleanup d w2) \<and>
         fst (handle_message E upd w) = raised (reply_text_exn E (error_reply TOO_LARGE)) \<and>
         trace (snd (handle_message E upd w)) = trace w @
           [ReplyText DOWNLOADING,
            ExtractInfo (strip (message_text upd)) (join d (lit ''%(title)s.%(ext)s'')),
            SubprocessRun (ffmpeg_cmd fp (join d (lit ''compressed.mp4''))),
            LogError (lit ''Download error: Even after compression, the video is too large.''),
            ReplyText ([10060] @ lit '' Error: Even after compression, the video is too large.'')]"
proof -
  note pv = process_video_too_large [OF assms(4-10), of "effective_chat_id upd"]
  have tr: "trace (cleanup d w2) = trace w @
      [ReplyText DOWNLOADING,
       ExtractInfo (strip (message_text upd)) (join d (lit ''%(title)s.%(ext)s'')),
       SubprocessRun (ffmpeg_cmd fp (join d (lit ''compressed.mp4'')))]"
    using TemporaryDirectory_Inr(1) [OF assms(4)] download_video_world(1) [OF assms(5)]
      compress_video_world(1) [OF assms(8)]
    by simp
  have msg: "is_Exception TOO_LARGE"
    "lit ''Download error: '' @ exn_str TOO_LARGE =
       lit ''Download error: Even after compression, the video is too large.''"
    "error_reply TOO_LARGE =
       [10060] @ lit '' Error: Even after compression, the video is too large.''"
    by (simp_all add: TOO_LARGE_def error_reply_def lit_def)
  have hm: "handle_message E upd w =
      (raised (reply_text_exn E (error_reply TOO_LARGE)),
       discard (effective_user_id upd) (emit (ReplyText (error_reply TOO_LARGE))
         (logger_error (lit ''Download error: '' @ exn_str TOO_LARGE) (cleanup d w2))))"
    using handle_message_started [OF assms(1-3) pv] msg(1) by simp
  show ?thesis
    using pv tr by (simp add: hm msg)
qed

theorem oversize_after_compression_witness:
  "fst (handle_message env_large upd_vimeo world_init) = Inr () \<and>
   trace (snd (handle_message env_large upd_vimeo world_init)) =
     [ReplyText DOWNLOADING,
      ExtractInfo (lit ''https://vimeo.com/12345'') (lit ''/tmp/tmpa1/%(title)s.%(ext)s''),
      SubprocessRun (ffmpeg_cmd (lit ''/tmp/tmpa1/Test Clip.mp4'') (lit ''/tmp/tmpa1/compressed.mp4'')),
      LogError (lit ''Download error: Even after compression, the video is too large.''),
      ReplyText ([10060] @ lit '' Error: Even after compression, the video is too large.'')]"
proof -
  let ?W = "emit (ReplyText DOWNLOADING) (add (effective_user_id upd_vimeo) world_init)"
  let ?d = "lit ''/tmp/tmpa1''"
  let ?fp = "lit ''/tmp/tmpa1/Test Clip.mp4''"
  let ?w0 = "snd (TemporaryDirectory env_large ?W)"
  let ?w1 = "snd (download_video env_large (strip (message_text upd_vimeo)) ?d ?w0)"
  let ?cp = "join ?d (lit ''compressed.mp4'')"
  let ?w2 = "snd (compress_video env_large ?fp ?cp ?w1)"
  have reply: "reply_text_exn env_large m = None" for m
    by (simp add: env_large_def env_small_def)
  have "fst (TemporaryDirectory env_large ?W) = Inr ?d"
    by (simp add: TemporaryDirectory_def exists_def env_large_def env_small_def world_init_def)
  then have tmp: "TemporaryDirectory env_large ?W = (Inr ?d, ?w0)"
    by (rule with_snd)
  have "fst (download_video env_large (strip (message_text upd_vimeo)) ?d ?w0) =
      Inr (lit ''Test Clip'', ?fp)"
    by (simp add: download_video_def TemporaryDirectory_def exists_def env_large_def
        env_small_def world_init_def)
  then have dl: "download_video env_large (strip (message_text upd_vimeo)) ?d ?w0 =
      (Inr (lit ''Test Clip'', ?fp), ?w1)"
    by (rule with_snd)
  have size1: "getsize env_large ?w1 ?fp = Inr (60 * 1024 * 1024)"
    by (simp add: getsize_def download_video_def TemporaryDirectory_def exists_def env_large_def
        env_small_def world_init_def)
  have "fst (compress_video env_large ?fp ?cp ?w1) = Inr ()"
    by (simp add: compress_video_def Let_def raised_def env_large_def env_small_def)
  then have comp: "compress_video env_large ?fp ?cp ?w1 = (Inr (), ?w2)"
    by (rule with_snd)
  have size2: "getsize env_large ?w2 ?cp = Inr (55 * 1024 * 1024)"
    by (simp add: getsize_def compress_video_def Let_def ffmpeg_cmd_def env_large_def env_small_def)
  have big: "60 * 1024 * 1024 > MAX_FILE_SIZE" "55 * 1024 * 1024 > MAX_FILE_SIZE"
    by (simp_all add: MAX_FILE_SIZE_def)
  have empty: "trace world_init = []"
    by (simp add: world_init_def)
  have paths: "join ?d (lit ''%(title)s.%(ext)s'') = lit ''/tmp/tmpa1/%(title)s.%(ext)s''"
    "?cp = lit ''/tmp/tmpa1/compressed.mp4''"
    by (simp_all add: join_def sep_def endswith_def lit_def)
  from oversize_after_compression
    [OF vimeo_admitted(1,2) reply tmp dl size1 big(1) comp size2 big(2)]
  show ?thesis
    by (simp add: reply raised_def vimeo_admitted(3) paths empty)
qed

text \<open>
  Claim C5 as stated fails. The engine raises a download fault whose cause message is
  "Video unavailable"; the run's replies are the progress notice and the fixed error
  reply, and neither contains the cause message.
\<close>

theorem cause_not_in_reply:
  "fst (download_video env_fault (lit ''https://vimeo.com/12345'') (lit ''/tmp/tmpa1'')
     (snd (TemporaryDirectory env_fault (emit (ReplyText DOWNLOADING) (add 7 world_init))))) =
     Inl (DownloadError (lit ''Video unavailable'')) \<and>
   trace (snd (handle_message env_fault upd_vimeo world_init)) =
     [ReplyText DOWNLOADING,
      ExtractInfo (lit ''https://vimeo.com/12345'') (lit ''/tmp/tmpa1/%(title)s.%(ext)s''),
      LogError (lit ''Download error: Failed to download. URL might be invalid.''),
      ReplyText ([10060] @ lit '' Error: Failed to download. URL might be invalid.'')] \<and>
   \<not> contains (lit ''Video unavailable'') DOWNLOADING \<and>
   \<not> contains (lit ''Video unavailable'')
       ([10060] @ lit '' Error: Failed to download. URL might be invalid.'')"
  by (simp add: run_defs env_fault_def env_small_def world_init_def upd_vimeo_def
      FAILED_TO_DOWNLOAD_def error_reply_def DOWNLOADING_def logger_error_def)

text \<open>
  Claim C5, as amended. When the extraction engine raises a download fault,
  \<open>_process_video\<close> raises a \<open>ValueError\<close> with a fixed message in its place, and the user
  is sent the error reply built from that fixed message. The reply and the log record are
  the same for every cause message of the fault.
\<close>

theorem download_fault_reply:
  assumes "effective_user_id upd \<notin> active_downloads w"
    and "is_valid_url (strip (message_text upd))"
    and "reply_text_exn E DOWNLOADING = None"
    and "TemporaryDirectory E (emit (ReplyText DOWNLOADING) (add (effective_user_id upd) w)) = (Inr d, w0)"
    and "download_video E (strip (message_text upd)) d w0 = (Inl (DownloadError cause), w1)"
  shows "process_video E (strip (message_text upd)) (effective_chat_id upd)
           (emit (ReplyText DOWNLOADING) (add (effective_user_id upd) w)) =
             (Inl FAILED_TO_DOWNLOAD, cleanup d w1) \<and>
         fst (handle_message E upd w) = raised (reply_text_exn E (error_reply FAILED_TO_DOWNLOAD)) \<and>
         trace (snd (handle_message E upd w)) = trace w @
           [ReplyText DOWNLOADING,
            ExtractInfo (strip (message_text upd)) (join d (lit ''%(title)s.%(ext)s'')),
            LogError (lit ''Download error: Failed to download. URL might be invalid.''),
            ReplyText ([10060] @ lit '' Error: Failed to download. URL might be invalid.'')]"
proof -
  note pv = process_video_download_fault [OF assms(4,5), of "effective_chat_id upd"]
  have tr: "trace (cleanup d w1) = trace w @
      [ReplyText DOWNLOADING,
       ExtractInfo (strip (message_text upd)) (join d (lit ''%(title)s.%(ext)s''))]"
    using TemporaryDirectory_Inr(1) [OF assms(4)] download_video_world(1) [OF assms(5)]
    by simp
  have msg: "is_Exception FAILED_TO_DOWNLOAD"
    "lit ''Download error: '' @ exn_str FAILED_TO_DOWNLOAD =
       lit ''Download error: Failed to download. URL might be invalid.''"
    "error_reply FAILED_TO_DOWNLOAD =
       [10060] @ lit '' Error: Failed to download. URL might be invalid.''"
    by (simp_all add: FAILED_TO_DOWNLOAD_def error_reply_def lit_def)
  have hm: "handle_message E upd w =
      (raised (reply_text_exn E (error_reply FAILED_TO_DOWNLOAD)),
       discard (effective_user_id upd) (emit (ReplyText (error_reply FAILED_TO_DOWNLOAD))
         (logger_error (lit ''Download error: '' @ exn_str FAILED_TO_DOWNLOAD) (cleanup d w1))))"
    using handle_message_started [OF assms(1-3) pv] msg(1) by simp
  show ?thesis
    using pv tr by (simp add: hm msg)
qed

theorem download_fault_reply_witness:
  "fst (handle_message env_fault upd_vimeo world_init) = Inr () \<and>
   trace (snd (handle_message env_fault upd_vimeo world_init)) =
     [ReplyText DOWNLOADING,
      ExtractInfo (lit ''https://vimeo.com/12345'') (lit ''/tmp/tmpa1/%(title)s.%(ext)s''),
      LogError (lit ''Download error: Failed to download. URL might be invalid.''),
      ReplyText ([10060] @ lit '' Error: Failed to download. URL might be invalid.'')]"
proof -
  let ?W = "emit (ReplyText DOWNLOADING) (add (effective_user_id upd_vimeo) world_init)"
  let ?d = "lit ''/tmp/tmpa1''"
  let ?w0 = "snd (TemporaryDirectory env_fault ?W)"
  let ?w1 = "snd (download_video env_fault (strip (message_text upd_vimeo)) ?d ?w0)"
  have reply: "reply_text_exn env_fault m = None" for m
    by (simp add: env_fault_def env_small_def)
  have "fst (TemporaryDirectory env_fault ?W) = Inr ?d"
    by (simp add: TemporaryDirectory_def exists_def env_fault_def env_small_def world_init_def)
  then have tmp: "TemporaryDirectory env_fault ?W = (Inr ?d, ?w0)"
    by (rule with_snd)
  have "fst (download_video env_fault (strip (message_text upd_vimeo)) ?d ?w0) =
      Inl (DownloadError (lit ''Video unavailable''))"
    by (simp add: download_video_def env_fault_def env_small_def)
  then have dl: "download_video env_fault (strip (message_text upd_vimeo)) ?d ?w0 =
      (Inl (DownloadError (lit ''Video unavailable'')), ?w1)"
    by (rule with_snd)
  have empty: "trace world_init = []"
    by (simp add: world_init_def)
  from download_fault_reply [OF vimeo_admitted(1,2) reply tmp dl]
  show ?thesis
    by (simp add: reply raised_def vimeo_admitted(3) scenario_paths empty)
qed


text \<open>
  Claim C7. When the extracted file is at most \<open>MAX_FILE_SIZE\<close>, the step after
  extraction is \<open>_send_video\<close> on the extracted file itself, the whole trace of the run is
  the trace at the end of that call, and it holds no transcoding call that was not there
  before.
\<close>

theorem small_file_not_compressed:
  assumes "effective_user_id upd \<notin> active_downloads w"
    and "is_valid_url (strip (message_text upd))"
    and "reply_text_exn E DOWNLOADING = None"
    and "TemporaryDirectory E (emit (ReplyText DOWNLOADING) (add (effective_user_id upd) w)) = (Inr d, w0)"
    and "download_video E (strip (message_text upd)) d w0 = (Inr (title, fp), w1)"
    and "getsize E w1 fp = Inr n" and "n \<le> MAX_FILE_SIZE"
  shows "process_video_try E (strip (message_text upd)) (effective_chat_id upd) d w0 =
           send_video E (effective_chat_id upd) fp title w1 \<and>
         trace w1 = trace w @ [ReplyText DOWNLOADING,
            ExtractInfo (strip (message_text upd)) (join d (lit ''%(title)s.%(ext)s''))] \<and>
         trace (snd (handle_message E upd w)) =
           trace (snd (send_video E (effective_chat_id upd) fp title w1)) \<and>
         filter is_compress (trace (snd (handle_message E upd w))) = filter is_compress (trace w)"
proof -
  let ?chat = "effective_chat_id upd" and ?user = "effective_user_id upd"
  let ?sv = "send_video E ?chat fp title w1"
  note pv = process_video_small [OF assms(4-7), of ?chat]
  have tr1: "trace w1 = trace w @ [ReplyText DOWNLOADING,
            ExtractInfo (strip (message_text upd)) (join d (lit ''%(title)s.%(ext)s''))]"
    using TemporaryDirectory_Inr(1) [OF assms(4)] download_video_world(1) [OF assms(5)]
    by simp
  have hm: "trace (snd (handle_message E upd w)) = trace (snd ?sv)"
    using handle_message_started [OF assms(1-3) pv(2)] send_video_result [of E ?chat fp title w1]
    by auto
  have "filter is_compress (trace (snd ?sv)) = filter is_compress (trace w)"
    by (simp add: send_video_no_compress tr1)
  with pv(1) tr1 hm show ?thesis by simp
qed

theorem small_file_not_compressed_witness:
  "30 * 1024 * 1024 \<le> MAX_FILE_SIZE \<and>
   filter is_compress (trace (snd (handle_message env_small upd_vimeo world_init))) = [] \<and>
   trace (snd (handle_message env_small upd_vimeo world_init)) =
     [ReplyText DOWNLOADING,
      ExtractInfo (lit ''https://vimeo.com/12345'') (lit ''/tmp/tmpa1/%(title)s.%(ext)s''),
      OpenRb (lit ''/tmp/tmpa1/Test Clip.mp4''),
      BotSendVideo 70 (lit ''/tmp/tmpa1/Test Clip.mp4'') (lit ''Test Clip'')]"
proof -
  let ?W = "emit (ReplyText DOWNLOADING) (add (effective_user_id upd_vimeo) world_init)"
  let ?d = "lit ''/tmp/tmpa1''"
  let ?fp = "lit ''/tmp/tmpa1/Test Clip.mp4''"
  let ?w0 = "snd (TemporaryDirectory env_small ?W)"
  let ?w1 = "snd (download_video env_small (strip (message_text upd_vimeo)) ?d ?w0)"
  have reply: "reply_text_exn env_small m = None" for m
    by (simp add: env_small_def)
  have "fst (TemporaryDirectory env_small ?W) = Inr ?d"
    by (simp add: TemporaryDirectory_def exists_def env_small_def world_init_def)
  then have tmp: "TemporaryDirectory env_small ?W = (Inr ?d, ?w0)"
    by (rule with_snd)
  have "fst (download_video env_small (strip (message_text upd_vimeo)) ?d ?w0) =
      Inr (lit ''Test Clip'', ?fp)"
    by (simp add: download_video_def TemporaryDirectory_def exists_def env_small_def
        world_init_def)
  then have dl: "download_video env_small (strip (message_text upd_vimeo)) ?d ?w0 =
      (Inr (lit ''Test Clip'', ?fp), ?w1)"
    by (rule with_snd)
  have size1: "getsize env_small ?w1 ?fp = Inr (30 * 1024 * 1024)"
    by (simp add: getsize_def download_video_def TemporaryDirectory_def exists_def
        env_small_def world_init_def)
  have small: "30 * 1024 * 1024 \<le> MAX_FILE_SIZE"
    by (simp add: MAX_FILE_SIZE_def)
  have empty: "trace world_init = []"
    by (simp add: world_init_def)
  have sent: "trace (snd (send_video env_small (effective_chat_id upd_vimeo) ?fp
      (lit ''Test Clip'') ?w1)) =
     [ReplyText DOWNLOADING,
      ExtractInfo (lit ''https://vimeo.com/12345'') (lit ''/tmp/tmpa1/%(title)s.%(ext)s''),
      OpenRb (lit ''/tmp/tmpa1/Test Clip.mp4''),
      BotSendVideo 70 (lit ''/tmp/tmpa1/Test Clip.mp4'') (lit ''Test Clip'')]"
    by (simp add: run_defs env_small_def world_init_def upd_vimeo_def)
  from small_file_not_compressed [OF vimeo_admitted(1,2) reply tmp dl size1 small] small
  show ?thesis
    by (simp add: empty sent)
qed

section \<open>Delivery\<close>

lemma send_video_uploads:
  "filter is_upload (trace (snd (send_video E chat_id file_path caption w))) =
     filter is_upload (trace w) @
       (case fs w file_path of
          Some (File n) \<Rightarrow> [BotSendVideo chat_id file_path (take 1024 caption)]
        | _ \<Rightarrow> [])"
  by (simp add: send_video_def send_video_try_def open_rb_def
      split: prod.splits sum.splits option.splits node.splits)

lemma process_video_try_uploads:
  assumes "download_video E url d w0 = (Inr (title, fp), w1)"
  shows "filter is_upload (trace (snd (process_video_try E url chat_id d w0))) \<in>
     {filter is_upload (trace w0),
      filter is_upload (trace w0) @ [BotSendVideo chat_id fp (take 1024 title)],
      filter is_upload (trace w0) @
        [BotSendVideo chat_id (join d (lit ''compressed.mp4'')) (take 1024 title)]}"
proof -
  have t1: "filter is_upload (trace w1) = filter is_upload (trace w0)"
    using download_video_world(1) [OF assms] by simp
  have t2: "filter is_upload (trace w2) = filter is_upload (trace w0)"
    if "compress_video E i out w1 = (r, w2)" for i out r w2
    using compress_video_world(1) [OF that] t1 by simp
  show ?thesis
    using assms t1 t2
    by (auto simp: process_video_try_def send_video_uploads Let_def
        split: prod.splits sum.splits option.splits node.splits)
qed

text \<open>
  Claim C8. The uploads \<open>_send_video\<close> adds to the trace are one upload with the caption
  cut to its first 1024 code points when the path is a file, and none otherwise. The cut
  caption has at most 1024 code points, and a caption of at most 1024 code points is sent
  as it is. In \<open>_process_video\<close> the caption is the title the extraction returned: the
  run uploads nothing, or the extracted or the compressed file with that title cut.
\<close>

theorem caption_truncated:
  "filter is_upload (trace (snd (send_video E chat_id file_path caption w))) =
     filter is_upload (trace w) @
       (case fs w file_path of
          Some (File n) \<Rightarrow> [BotSendVideo chat_id file_path (take 1024 caption)]
        | _ \<Rightarrow> []) \<and>
   length (take 1024 caption) \<le> 1024 \<and>
   (length caption \<le> 1024 \<longrightarrow> take 1024 caption = caption) \<and>
   (download_video E url d w0 = (Inr (title, fp), w1) \<longrightarrow>
      filter is_upload (trace (snd (process_video_try E url chat_id d w0))) \<in>
        {filter is_upload (trace w0),
         filter is_upload (trace w0) @ [BotSendVideo chat_id fp (take 1024 title)],
         filter is_upload (trace w0) @
           [BotSendVideo chat_id (join d (lit ''compressed.mp4'')) (take 1024 title)]})"
  using send_video_uploads [of E chat_id file_path caption w]
    process_video_try_uploads [of E url d w0 title fp w1 chat_id]
  by simp

theorem caption_truncated_witness:
  "length (lit ''Test Clip'') \<le> 1024 \<and>
   filter is_upload (trace (snd (send_video env_small 70 (lit ''/tmp/tmpa1/Test Clip.mp4'')
      (lit ''Test Clip'') world_clip))) =
     [BotSendVideo 70 (lit ''/tmp/tmpa1/Test Clip.mp4'') (lit ''Test Clip'')] \<and>
   filter is_upload (trace (snd (send_video env_small 70 (lit ''/tmp/tmpa1/Test Clip.mp4'')
      (replicate 2000 97) world_clip))) =
     [BotSendVideo 70 (lit ''/tmp/tmpa1/Test Clip.mp4'') (replicate 1024 97)]"
proof -
  have short: "length (lit ''Test Clip'') \<le> 1024"
    by (simp add: lit_def)
  have clip: "fs world_clip (lit ''/tmp/tmpa1/Test Clip.mp4'') = Some (File (30 * 1024 * 1024))"
    "trace world_clip = []"
    by (simp_all add: world_clip_def lit_def)
  show ?thesis
    using short
      caption_truncated [of env_small 70 "lit ''/tmp/tmpa1/Test Clip.mp4''" "lit ''Test Clip''"
        world_clip]
      caption_truncated [of env_small 70 "lit ''/tmp/tmpa1/Test Clip.mp4''" "replicate 2000 97"
        world_clip]
    by (simp add: clip)
qed

lemma view_cong:
  "view w = view w' \<Longrightarrow> view (cleanup d w) = view (cleanup d w')"
  "view w = view w' \<Longrightarrow> view (discard u w) = view (discard u w')"
  "view w = view w' \<Longrightarrow> view (emit ev w) = view (emit ev w')"
  "view w = view w' \<Longrightarrow> view (logger_error m w) = view (logger_error m w')"
  by (auto simp: view_def cleanup_def discard_def emit_def logger_error_def)

lemma repr_char_without_upload [simp]:
  "repr_char (E\<lparr>bot_send_video := g\<rparr>) = repr_char E"
  by (simp add: fun_eq_iff repr_char_def)

lemma repr_without_upload [simp]:
  "repr (E\<lparr>bot_send_video := g\<rparr>) = repr E"
  by (simp add: fun_eq_iff repr_def)

lemma oserror_without_upload [simp]:
  "no_such_file (E\<lparr>bot_send_video := g\<rparr>) = no_such_file E"
  "is_a_directory (E\<lparr>bot_send_video := g\<rparr>) = is_a_directory E"
  by (simp_all add: fun_eq_iff no_such_file_def is_a_directory_def)

lemma without_upload [simp]:
  "download_video (E\<lparr>bot_send_video := g\<rparr>) = download_video E"
  "compress_video (E\<lparr>bot_send_video := g\<rparr>) = compress_video E"
  "getsize (E\<lparr>bot_send_video := g\<rparr>) = getsize E"
  "TemporaryDirectory (E\<lparr>bot_send_video := g\<rparr>) = TemporaryDirectory E"
  "reply_text (E\<lparr>bot_send_video := g\<rparr>) = reply_text E"
  "open_rb (E\<lparr>bot_send_video := g\<rparr>) = open_rb E"
  by (simp_all add: fun_eq_iff download_video_def compress_video_def getsize_def
      TemporaryDirectory_def reply_text_def open_rb_def split: option.splits node.splits)

lemma send_video_swallows:
  assumes "\<forall>c p cap e. bot_send_video E c p cap = Some e \<longrightarrow> is_Exception e"
  shows "fst (send_video E chat fp cap w) = Inr ()"
    and "view (snd (send_video E chat fp cap w)) = view w"
  using assms
  by (auto simp: send_video_def send_video_try_def open_rb_def raised_def view_def
      no_such_file_def is_a_directory_def
      split: prod.splits sum.splits option.splits node.splits)

lemma send_video_logs:
  "snd (send_video E chat fp cap w) =
     (case fst (send_video_try E chat fp cap w) of
        Inl e \<Rightarrow> if is_Exception e
                 then logger_error (lit ''Send failed: '' @ exn_str e)
                        (snd (send_video_try E chat fp cap w))
                 else snd (send_video_try E chat fp cap w)
      | Inr u \<Rightarrow> snd (send_video_try E chat fp cap w))"
  by (simp add: send_video_def split: prod.splits sum.splits)

lemma same_outcome:
  assumes "fst x = fst y" and "view (snd x) = view (snd y)"
  obtains r w1 w1' where "x = (r, w1)" and "y = (r, w1')" and "view w1 = view w1'"
  using assms by (cases x, cases y) auto

lemma process_video_try_upload_free:
  assumes "\<forall>c p cap e. bot_send_video E c p cap = Some e \<longrightarrow> is_Exception e"
  shows "fst (process_video_try E url chat d w) =
           fst (process_video_try (E\<lparr>bot_send_video := \<lambda>c p cap. None\<rparr>) url chat d w) \<and>
         view (snd (process_video_try E url chat d w)) =
           view (snd (process_video_try (E\<lparr>bot_send_video := \<lambda>c p cap. None\<rparr>) url chat d w))"
proof -
  let ?E' = "E\<lparr>bot_send_video := \<lambda>c p cap. None\<rparr>"
  have ok: "\<forall>c p cap e. bot_send_video ?E' c p cap = Some e \<longrightarrow> is_Exception e"
    by simp
  have sv: "fst (send_video E chat fp cap w1) = fst (send_video ?E' chat fp cap w1) \<and>
            view (snd (send_video E chat fp cap w1)) = view (snd (send_video ?E' chat fp cap w1))"
    for fp cap w1
    by (simp add: send_video_swallows [OF assms] send_video_swallows [OF ok])
  show ?thesis
  proof (cases "download_video E url d w")
    case dl: (Pair r1 w1)
    show ?thesis
    proof (cases r1)
      case (Inl e)
      with dl show ?thesis by (simp add: process_video_try_def)
    next
      case (Inr tf)
      obtain title fp where tf: "tf = (title, fp)" by (cases tf)
      show ?thesis
      proof (cases "getsize E w1 fp")
        case (Inl e)
        with dl Inr tf show ?thesis by (simp add: process_video_try_def)
      next
        case gs: (Inr n)
        show ?thesis
        proof (cases "n > MAX_FILE_SIZE")
          case False
          with dl Inr tf gs sv show ?thesis by (simp add: process_video_try_def)
        next
          case True
          show ?thesis
          proof (cases "compress_video E fp (join d (lit ''compressed.mp4'')) w1")
            case cv: (Pair r2 w2)
            show ?thesis
            proof (cases r2)
              case (Inl e)
              with dl \<open>r1 = Inr tf\<close> tf gs True cv show ?thesis
                by (simp add: process_video_try_def)
            next
              case (Inr u)
              show ?thesis
              proof (cases "getsize E w2 (join d (lit ''compressed.mp4''))")
                case (Inl e)
                with dl \<open>r1 = Inr tf\<close> tf gs True cv \<open>r2 = Inr u\<close> show ?thesis
                  by (simp add: process_video_try_def)
              next
                case (Inr n')
                with dl \<open>r1 = Inr tf\<close> tf gs True cv \<open>r2 = Inr u\<close> sv show ?thesis
                  by (simp add: process_video_try_def)
              qed
            qed
          qed
        qed
      qed
    qed
  qed
qed

lemma process_video_upload_free:
  assumes "\<forall>c p cap e. bot_send_video E c p cap = Some e \<longrightarrow> is_Exception e"
  shows "fst (process_video E url chat w) =
           fst (process_video (E\<lparr>bot_send_video := \<lambda>c p cap. None\<rparr>) url chat w) \<and>
         view (snd (process_video E url chat w)) =
           view (snd (process_video (E\<lparr>bot_send_video := \<lambda>c p cap. None\<rparr>) url chat w))"
proof (cases "TemporaryDirectory E w")
  case (Pair r0 w0)
  show ?thesis
  proof (cases r0)
    case (Inl e)
    with Pair show ?thesis by (simp add: process_video_def)
  next
    case (Inr d)
    let ?E' = "E\<lparr>bot_send_video := \<lambda>c p cap. None\<rparr>"
    obtain r w1 where x: "process_video_try E url chat d w0 = (r, w1)"
      by (cases "process_video_try E url chat d w0")
    obtain r' w1' where y: "process_video_try ?E' url chat d w0 = (r', w1')"
      by (cases "process_video_try ?E' url chat d w0")
    from process_video_try_upload_free [OF assms, of url chat d w0] x y
    have same: "r' = r" "view w1 = view w1'"
      by simp_all
    have "view (cleanup d w1) = view (cleanup d w1')"
      using same(2) by (rule view_cong)
    with Pair Inr x y same(1) show ?thesis
      by (cases r) (simp_all add: process_video_def)
  qed
qed

lemma run_lifecycle_upload_free:
  assumes "\<forall>c p cap e. bot_send_video E c p cap = Some e \<longrightarrow> is_Exception e"
  shows "fst (run_lifecycle E user chat url w) =
           fst (run_lifecycle (E\<lparr>bot_send_video := \<lambda>c p cap. None\<rparr>) user chat url w) \<and>
         view (snd (run_lifecycle E user chat url w)) =
           view (snd (run_lifecycle (E\<lparr>bot_send_video := \<lambda>c p cap. None\<rparr>) user chat url w))"
proof -
  let ?E' = "E\<lparr>bot_send_video := \<lambda>c p cap. None\<rparr>"
  have "fst (handle_message_try E url chat w) = fst (handle_message_try ?E' url chat w) \<and>
        view (snd (handle_message_try E url chat w)) = view (snd (handle_message_try ?E' url chat w))"
    using process_video_upload_free [OF assms]
    by (simp add: handle_message_try_def split: prod.splits sum.splits)
  moreover obtain r w1 where x: "handle_message_try E url chat w = (r, w1)"
    by (cases "handle_message_try E url chat w")
  moreover obtain r' w1' where y: "handle_message_try ?E' url chat w = (r', w1')"
    by (cases "handle_message_try ?E' url chat w")
  ultimately have same: "r' = r" "view w1 = view w1'"
    by simp_all
  have d: "view (discard user w1) = view (discard user w1')"
    using same(2) by (rule view_cong)
  have "view (discard user (emit (ReplyText m) (logger_error m' w1))) =
        view (discard user (emit (ReplyText m) (logger_error m' w1')))" for m m'
    using same(2) by (intro view_cong)
  with d x y same(1) show ?thesis
    by (cases r) (simp_all add: run_lifecycle_def reply_text_def)
qed

text \<open>
  Claim C6. Take any failure of the upload (an exception that \<open>except Exception\<close>
  matches); a file that cannot be opened fails that way too. Then \<open>_send_video\<close> returns
  normally, having logged \<open>Send failed\<close> with the message of whatever its body raised, and
  \<open>handle_message\<close> returns the same result and sends the same replies as it does when the
  upload succeeds: a failed delivery neither fails the run nor produces an error reply.
\<close>

theorem delivery_failure_swallowed:
  assumes "\<forall>c p cap e. bot_send_video E c p cap = Some e \<longrightarrow> is_Exception e"
  shows "fst (send_video E chat_id file_path caption w) = Inr () \<and>
         snd (send_video E chat_id file_path caption w) =
           (case fst (send_video_try E chat_id file_path caption w) of
              Inl e \<Rightarrow> logger_error (lit ''Send failed: '' @ exn_str e)
                         (snd (send_video_try E chat_id file_path caption w))
            | Inr u \<Rightarrow> snd (send_video_try E chat_id file_path caption w)) \<and>
         fst (handle_message E upd w') =
           fst (handle_message (E\<lparr>bot_send_video := \<lambda>c p cap. None\<rparr>) upd w') \<and>
         filter is_reply (trace (snd (handle_message E upd w'))) =
           filter is_reply (trace (snd (handle_message (E\<lparr>bot_send_video := \<lambda>c p cap. None\<rparr>) upd w')))"
proof -
  let ?E' = "E\<lparr>bot_send_video := \<lambda>c p cap. None\<rparr>"
  have caught: "is_Exception e" if "fst (send_video_try E chat_id file_path caption w) = Inl e" for e
    using that assms
    by (auto simp: send_video_try_def open_rb_def raised_def no_such_file_def is_a_directory_def
        split: prod.splits sum.splits option.splits node.splits)
  have logged: "snd (send_video E chat_id file_path caption w) =
           (case fst (send_video_try E chat_id file_path caption w) of
              Inl e \<Rightarrow> logger_error (lit ''Send failed: '' @ exn_str e)
                         (snd (send_video_try E chat_id file_path caption w))
            | Inr u \<Rightarrow> snd (send_video_try E chat_id file_path caption w))"
    using caught by (simp add: send_video_logs split: sum.splits)
  have "fst (handle_message E upd w') = fst (handle_message ?E' upd w') \<and>
        view (snd (handle_message E upd w')) = view (snd (handle_message ?E' upd w'))"
    using run_lifecycle_upload_free [OF assms]
    by (simp add: handle_message_def Let_def)
  then show ?thesis
    using send_video_swallows(1) [OF assms] logged by (simp add: view_def)
qed

theorem delivery_failure_swallowed_witness:
  "bot_send_video env_send_fails 70 (lit ''/tmp/tmpa1/Test Clip.mp4'') (lit ''Test Clip'') =
     Some (OtherException (lit ''Timed out'')) \<and>
   fst (handle_message env_send_fails upd_vimeo world_init) = Inr () \<and>
   filter is_reply (trace (snd (handle_message env_send_fails upd_vimeo world_init))) =
     [ReplyText DOWNLOADING]"
proof -
  have only: "\<forall>c p cap e. bot_send_video env_send_fails c p cap = Some e \<longrightarrow> is_Exception e"
    by (auto simp: env_send_fails_def)
  have same: "env_send_fails\<lparr>bot_send_video := \<lambda>c p cap. None\<rparr> = env_small"
    by (simp add: env_send_fails_def env_small_def)
  have ok: "fst (handle_message env_small upd_vimeo world_init) = Inr ()"
    "filter is_reply (trace (snd (handle_message env_small upd_vimeo world_init))) =
       [ReplyText DOWNLOADING]"
    by (simp_all add: run_defs env_small_def world_init_def upd_vimeo_def)
  have "bot_send_video env_send_fails 70 (lit ''/tmp/tmpa1/Test Clip.mp4'') (lit ''Test Clip'') =
     Some (OtherException (lit ''Timed out''))"
    by (simp add: env_send_fails_def)
  with delivery_failure_swallowed [OF only, of _ _ _ _ upd_vimeo world_init] ok show ?thesis
    by (simp add: same)
qed

end
